theory Spec2Isabelle
  imports Main
begin

section \<open>Data model\<close>

text \<open>
  The spells of \<^verbatim>\<open>src/magic.py\<close> act on actors that live in process-wide game state.
  An actor is a mutable object with a position, a display name and optional components;
  Python hands actors around by reference, so the model keeps them in a store (the list
  of the game's current objects) and a reference is an index into that list.
\<close>

datatype error = AttributeError | UnboundLocalError

datatype colour = COLOR_WHITE | COLOR_BLUE | COLOR_GREEN | COLOR_YELLOW

record ComCreature =
  personal_name :: string
  current_hp :: int
  max_hp :: int

text \<open>
  The ai component of an actor. \<open>AiConfuse\<close> is the wrapper that \<^verbatim>\<open>cast_confusion\<close>
  builds with the keyword arguments \<^verbatim>\<open>original_ai\<close> and \<^verbatim>\<open>num_turns\<close>; every other
  behaviour class is \<open>AiOther\<close>, named by its class. The \<^verbatim>\<open>owner\<close> attribute is the
  back reference to the actor (unset until it is assigned).
\<close>

datatype ai =
    AiOther (ai_class: string) (owner: "nat option")
  | AiConfuse (original_ai: "ai option") (num_turns: int) (owner: "nat option")

record ObjActor =
  actor_x :: int
  actor_y :: int
  display_name :: string
  creature :: "ComCreature option"
  ai :: "ai option"

record world =
  current_objects :: "ObjActor list"
  message_log :: "(string \<times> colour) list"

section \<open>Collaborators of the spells that are outside the given sources\<close>

text \<open>
  Modelled from the spec: \<^verbatim>\<open>game.game_message\<close> is not among the sources. The spec
  speaks of "reporting a distinct message"; the model appends the text and its colour
  to the message log.
\<close>

definition game_message :: "string \<Rightarrow> colour \<Rightarrow> world \<Rightarrow> world" where
  "game_message msg msg_color w = w\<lparr>message_log := message_log w @ [(msg, msg_color)]\<rparr>"

text \<open>
  Modelled from the spec: the method \<^verbatim>\<open>take_damage\<close> of the creature component is not
  among the sources. The spec: "damage reduces current health by the specified amount,
  clamped at zero".
\<close>

definition take_damage :: "ComCreature \<Rightarrow> int \<Rightarrow> ComCreature" where
  "take_damage c damage =
     (let hp = current_hp c - damage
      in c\<lparr>current_hp := (if hp < 0 then 0 else hp)\<rparr>)"

text \<open>
  Modelled from the spec: the method \<^verbatim>\<open>heal\<close> of the creature component is not among
  the sources. The spec gives the consistency "current health \<le> max health" of the
  record; the model adds the value and keeps the health within the maximum.
\<close>

definition heal :: "ComCreature \<Rightarrow> int \<Rightarrow> ComCreature" where
  "heal c v =
     (let hp = current_hp c + v
      in c\<lparr>current_hp := (if max_hp c < hp then max_hp c else hp)\<rparr>)"

text \<open>
  Modelled from the spec: \<^verbatim>\<open>map.creature_at_coords\<close> is not among the sources. The
  spec: the map layer answers "what entities occupy tile (x,y)" and a spell "looks up
  any creature occupying each tile". The model returns a reference to the first of the
  current objects that stands on the tile and has a creature component, and \<open>None\<close>
  when there is none.
\<close>

definition occupies :: "ObjActor list \<Rightarrow> int \<Rightarrow> int \<Rightarrow> nat \<Rightarrow> bool" where
  "occupies objs coords_x coords_y j =
     (actor_x (objs ! j) = coords_x \<and> actor_y (objs ! j) = coords_y \<and> creature (objs ! j) \<noteq> None)"

definition creature_at_coords :: "world \<Rightarrow> int \<Rightarrow> int \<Rightarrow> nat option" where
  "creature_at_coords w coords_x coords_y =
     List.find (occupies (current_objects w) coords_x coords_y) [0 ..< length (current_objects w)]"

text \<open>
  The in-place effect of \<^verbatim>\<open>target_creature.creature.take_damage(damage)\<close> on the store:
  the creature component of the referenced actor is replaced by the damaged one.
\<close>

definition actor_take_damage :: "ObjActor \<Rightarrow> int \<Rightarrow> ObjActor" where
  "actor_take_damage a damage = a\<lparr>creature := map_option (\<lambda>c. take_damage c damage) (creature a)\<rparr>"

definition creature_take_damage :: "nat \<Rightarrow> int \<Rightarrow> world \<Rightarrow> world" where
  "creature_take_damage j damage w =
     w\<lparr>current_objects := (current_objects w)[j := actor_take_damage (current_objects w ! j) damage]\<rparr>"

definition creature_heal :: "nat \<Rightarrow> int \<Rightarrow> world \<Rightarrow> world" where
  "creature_heal j v w =
     w\<lparr>current_objects := (current_objects w)
          [j := (current_objects w ! j)
                  \<lparr>creature := map_option (\<lambda>c. heal c v) (creature (current_objects w ! j))\<rparr>]\<rparr>"

section \<open>The spells (\<^verbatim>\<open>src/magic.py\<close>)\<close>

text \<open>
  A spell returns its boolean and the new game state, or the fault it raises. The
  tile chosen in \<^verbatim>\<open>tileselect.menu_tile_select\<close> is player input and is a parameter:
  \<open>None\<close> when the player cancelled. The map queries \<^verbatim>\<open>tiles_in_line\<close> and
  \<^verbatim>\<open>tiles_in_radius\<close> are not among the sources and are parameters too.
\<close>

type_synonym coords = "int \<times> int"

type_synonym 'a result = "error + 'a"

definition cast_heal :: "nat \<Rightarrow> int \<Rightarrow> world \<Rightarrow> (bool \<times> world) result" where
  "cast_heal target v w =
     (case creature (current_objects w ! target) of
        None \<Rightarrow> Inl AttributeError
      | Some c \<Rightarrow>
          if current_hp c < max_hp c then Inr (True, creature_heal target v w)
          else
            let full_hp_msg = personal_name c @ '' is already at full health!''
            in Inr (False, game_message full_hp_msg COLOR_BLUE w))"

text \<open>
  The loop of \<^verbatim>\<open>cast_lightening\<close> over \<^verbatim>\<open>enumerate(tiles_affected)\<close>: \<open>n\<close> is
  \<^verbatim>\<open>len(tiles_affected)\<close>, \<open>i\<close> the index of the next tile. \<open>Inr\<close> is the early
  \<^verbatim>\<open>return False\<close> from inside the loop, \<open>Inl\<close> the state and the flag
  \<^verbatim>\<open>damaged_something\<close> when the loop runs to its end.
\<close>

fun lightening_loop ::
  "nat \<Rightarrow> int \<Rightarrow> nat \<Rightarrow> coords list \<Rightarrow> world \<Rightarrow> bool \<Rightarrow> (world \<times> bool) + world" where
  "lightening_loop n damage i [] w damaged_something = Inl (w, damaged_something)"
| "lightening_loop n damage i ((tx, ty) # tiles) w damaged_something =
     (case creature_at_coords w tx ty of
        None \<Rightarrow> lightening_loop n damage (Suc i) tiles w damaged_something
      | Some target_creature \<Rightarrow>
          let (w1, damaged1) =
                (if i \<noteq> 0 then (creature_take_damage target_creature damage w, True)
                 else (w, damaged_something))
          in if n = 1
             then Inr (game_message ''Watch out! Aim away from yourself please.'' COLOR_WHITE w1)
             else lightening_loop n damage (Suc i) tiles w1 damaged1)"

definition cast_lightening ::
  "(coords \<Rightarrow> coords \<Rightarrow> coords list) \<Rightarrow> coords option \<Rightarrow> nat \<Rightarrow> int \<times> int \<Rightarrow> world
     \<Rightarrow> (bool \<times> world) result" where
  "cast_lightening tiles_in_line selected_tile_address caster dmg_and_range w =
     (let caster_location = (actor_x (current_objects w ! caster), actor_y (current_objects w ! caster));
          (damage, max_r) = dmg_and_range
      in case selected_tile_address of
           None \<Rightarrow> Inr (False, w)
         | Some sel \<Rightarrow>
             let tiles_affected = tiles_in_line caster_location sel
             in (case lightening_loop (length tiles_affected) damage 0 tiles_affected w False of
                   Inr w1 \<Rightarrow> Inr (False, w1)
                 | Inl (w1, damaged_something) \<Rightarrow>
                     (case creature (current_objects w1 ! caster) of
                        None \<Rightarrow> Inl AttributeError
                      | Some c \<Rightarrow>
                          let w2 = game_message (personal_name c @ '' casts lightening'') COLOR_WHITE w1
                          in if \<not> damaged_something
                             then Inr (True, game_message ''Nothing was hit, what a waste.'' COLOR_WHITE w2)
                             else Inr (True, w2))))"

fun fireball_loop :: "int \<Rightarrow> coords list \<Rightarrow> world \<Rightarrow> bool \<Rightarrow> world \<times> bool" where
  "fireball_loop damage [] w damaged_something = (w, damaged_something)"
| "fireball_loop damage ((tx, ty) # tiles) w damaged_something =
     (case creature_at_coords w tx ty of
        None \<Rightarrow> fireball_loop damage tiles w damaged_something
      | Some target_creature \<Rightarrow>
          fireball_loop damage tiles (creature_take_damage target_creature damage w) True)"

definition cast_fireball ::
  "(coords \<Rightarrow> int \<Rightarrow> coords list) \<Rightarrow> coords option \<Rightarrow> nat \<Rightarrow> int \<times> int \<times> int \<Rightarrow> world
     \<Rightarrow> (bool \<times> world) result" where
  "cast_fireball tiles_in_radius selected_tile_address caster dmg_range_radius w =
     (let (damage, spell_range, spell_radius) = dmg_range_radius
      in case selected_tile_address of
           None \<Rightarrow> Inr (False, w)
         | Some sel \<Rightarrow>
             (case creature (current_objects w ! caster) of
                None \<Rightarrow> Inl AttributeError
              | Some c \<Rightarrow>
                  let w1 = game_message (personal_name c @ '' casts fireball'') COLOR_WHITE w;
                      list_of_tiles_to_damage = tiles_in_radius sel spell_radius;
                      (w2, damaged_something) = fireball_loop damage list_of_tiles_to_damage w1 False
                  in if \<not> damaged_something
                     then Inr (True, game_message ''Nothing was hit, what a waste.'' COLOR_WHITE w2)
                     else Inr (True, w2)))"

text \<open>
  The f-string of \<^verbatim>\<open>cast_confusion\<close> prints the integer \<^verbatim>\<open>effect_length\<close> in decimal,
  as Python's \<^verbatim>\<open>str\<close> does.
\<close>

fun str_nat :: "nat \<Rightarrow> string" where
  "str_nat n =
     (if n < 10 then [''0123456789'' ! n]
      else str_nat (n div 10) @ [''0123456789'' ! (n mod 10)])"

declare str_nat.simps [simp del]

definition str_int :: "int \<Rightarrow> string" where
  "str_int i = (if i < 0 then CHR ''-'' # str_nat (nat (- i)) else str_nat (nat i))"

definition set_ai :: "nat \<Rightarrow> ai option \<Rightarrow> world \<Rightarrow> world" where
  "set_ai j new_ai w =
     w\<lparr>current_objects := (current_objects w)[j := (current_objects w ! j)\<lparr>ai := new_ai\<rparr>]\<rparr>"

fun set_owner :: "nat \<Rightarrow> ai \<Rightarrow> ai" where
  "set_owner r (AiOther cls own) = AiOther cls (Some r)"
| "set_owner r (AiConfuse orig n own) = AiConfuse orig n (Some r)"

definition cast_confusion :: "coords option \<Rightarrow> nat \<Rightarrow> int \<Rightarrow> world \<Rightarrow> (bool \<times> world) result" where
  "cast_confusion selected_tile_address caster effect_length w =
     (case selected_tile_address of
        None \<Rightarrow> Inr (False, w)
      | Some (target_tile_x, target_tile_y) \<Rightarrow>
          (case creature_at_coords w target_tile_x target_tile_y of
             None \<Rightarrow> Inr (True, w)
           | Some target_creature \<Rightarrow>
               (case creature (current_objects w ! caster) of
                  None \<Rightarrow> Inl AttributeError
                | Some c \<Rightarrow>
                    let w1 = game_message
                               (personal_name c @ '' casts confusion on ''
                                  @ display_name (current_objects w ! target_creature))
                               COLOR_WHITE w;
                        normal_ai = ai (current_objects w1 ! target_creature);
                        w2 = set_ai target_creature (Some (AiConfuse normal_ai effect_length None)) w1;
                        w3 = set_ai target_creature
                               (map_option (set_owner target_creature) (ai (current_objects w2 ! target_creature)))
                               w2;
                        w4 = game_message
                               (display_name (current_objects w3 ! target_creature) @ '' is confused for ''
                                  @ str_int effect_length @ '' turns!'')
                               COLOR_GREEN w3
                    in Inr (True, w4))))"

text \<open>
  Modelled from the spec: the class \<^verbatim>\<open>AiConfuse\<close> of \<^verbatim>\<open>src.components.ai\<close> is not among
  the sources. The spec: confusion substitutes the target's AI behaviour "with a wrapper
  that randomizes movement for a fixed number of turns, then restores the original
  behavior". A turn of the wrapper with turns left moves its actor by a randomly drawn
  step (an input of the model) and counts one turn down; a turn with no turns left puts
  the stored original behaviour back. A turn of any other behaviour is outside this model
  and leaves the state as it is.
\<close>

definition AiConfuse_take_turn :: "nat \<Rightarrow> int \<times> int \<Rightarrow> world \<Rightarrow> world" where
  "AiConfuse_take_turn j step w =
     (let a = current_objects w ! j
      in case ai a of
           Some (AiConfuse orig n own) \<Rightarrow>
             if 0 < n
             then w\<lparr>current_objects := (current_objects w)
                      [j := a\<lparr>actor_x := actor_x a + fst step, actor_y := actor_y a + snd step,
                              ai := Some (AiConfuse orig (n - 1) own)\<rparr>]\<rparr>
             else w\<lparr>current_objects := (current_objects w)[j := a\<lparr>ai := orig\<rparr>]\<rparr>
         | _ \<Rightarrow> w)"

fun take_turns :: "nat \<Rightarrow> (int \<times> int) list \<Rightarrow> world \<Rightarrow> world" where
  "take_turns j [] w = w"
| "take_turns j (step # steps) w = take_turns j steps (AiConfuse_take_turn j step w)"

section \<open>Player actions (\<^verbatim>\<open>source/actions.py\<close>)\<close>

text \<open>
  \<^verbatim>\<open>move_one_tile\<close> works on the module globals \<^verbatim>\<open>PLAYER\<close> and \<^verbatim>\<open>FOV_CALCULATE\<close>. The
  method \<^verbatim>\<open>move\<close> of the creature component is not among the sources and is a parameter.
  The local variables \<^verbatim>\<open>dx, dy\<close> are bound only in the four branches; Python evaluates
  the callee \<^verbatim>\<open>globalvars.PLAYER.creature.move\<close> before the arguments, so a missing player
  or creature component faults first, and reading the unbound locals faults next.
\<close>

record globalvars =
  PLAYER :: "ObjActor option"
  FOV_CALCULATE :: bool

definition move_one_tile ::
  "(int \<Rightarrow> int \<Rightarrow> globalvars \<Rightarrow> globalvars result) \<Rightarrow> string \<Rightarrow> globalvars \<Rightarrow> globalvars result" where
  "move_one_tile creature_move direction g =
     (let dx_dy =
            (if direction = ''up'' then Some (0, - 1)
             else if direction = ''down'' then Some (0, 1)
             else if direction = ''left'' then Some (- 1, 0)
             else if direction = ''right'' then Some (1, 0)
             else None)
      in case PLAYER g of
           None \<Rightarrow> Inl AttributeError
         | Some player \<Rightarrow>
             (case creature player of
                None \<Rightarrow> Inl AttributeError
              | Some c \<Rightarrow>
                  (case dx_dy of
                     None \<Rightarrow> Inl UnboundLocalError
                   | Some (dx, dy) \<Rightarrow>
                       (case creature_move dx dy g of
                          Inl e \<Rightarrow> Inl e
                        | Inr g1 \<Rightarrow> Inr (g1\<lparr>FOV_CALCULATE := True\<rparr>)))))"

section \<open>A small game state\<close>

text \<open>
  A hero at tile (0, 0) and a rat at tile (1, 0), both with a creature component. The
  theorems below are exercised on it.
\<close>

definition demo_hero :: ObjActor where
  "demo_hero = \<lparr>actor_x = 0, actor_y = 0, display_name = ''hero'',
                 creature = Some \<lparr>personal_name = ''hero'', current_hp = 10, max_hp = 10\<rparr>,
                 ai = None\<rparr>"

definition demo_rat :: ObjActor where
  "demo_rat = \<lparr>actor_x = 1, actor_y = 0, display_name = ''rat'',
                creature = Some \<lparr>personal_name = ''rat'', current_hp = 3, max_hp = 4\<rparr>,
                ai = Some (AiOther ''AiChase'' (Some 1))\<rparr>"

definition demo_world :: world where
  "demo_world = \<lparr>current_objects = [demo_hero, demo_rat], message_log = []\<rparr>"

lemmas demo_defs = demo_world_def demo_hero_def demo_rat_def

section \<open>Facts about the collaborators and the loops\<close>

text \<open>
  Damage changes neither the position of an actor nor whether it has a creature
  component, so the lookup of a tile gives the same answer before and after.
\<close>

lemma occupies_take_damage:
  "j < length (current_objects w) \<Longrightarrow>
   occupies (current_objects (creature_take_damage k damage w)) cx cy j = occupies (current_objects w) cx cy j"
  by (cases "j = k")
     (auto simp: occupies_def creature_take_damage_def actor_take_damage_def)

lemma length_take_damage:
  "length (current_objects (creature_take_damage k damage w)) = length (current_objects w)"
  by (simp add: creature_take_damage_def)

lemma creature_at_coords_take_damage:
  "creature_at_coords (creature_take_damage k damage w) cx cy = creature_at_coords w cx cy"
  unfolding creature_at_coords_def length_take_damage
  by (rule find_cong) (simp_all add: occupies_take_damage)

lemma creature_at_coords_Some:
  assumes "creature_at_coords w cx cy = Some j"
  shows "j < length (current_objects w)"
    and "actor_x (current_objects w ! j) = cx"
    and "actor_y (current_objects w ! j) = cy"
    and "creature (current_objects w ! j) \<noteq> None"
  using assms unfolding creature_at_coords_def find_Some_iff occupies_def
  by auto

lemma message_log_take_damage:
  "message_log (creature_take_damage k damage w) = message_log w"
  by (simp add: creature_take_damage_def)

lemma creature_at_coords_game_message:
  "creature_at_coords (game_message msg col w) cx cy = creature_at_coords w cx cy"
  by (simp add: creature_at_coords_def game_message_def)

lemma current_objects_game_message:
  "current_objects (game_message msg col w) = current_objects w"
  by (simp add: game_message_def)

lemma message_log_game_message:
  "message_log (game_message msg col w) = message_log w @ [(msg, col)]"
  by (simp add: game_message_def)

lemma demo_lookup:
  "creature_at_coords demo_world 0 0 = Some 0"
  "creature_at_coords demo_world 1 0 = Some 1"
  "creature_at_coords demo_world 5 5 = None"
  by (simp_all add: creature_at_coords_def occupies_def demo_defs)

text \<open>
  What damage does to a creature and to its actor, written out; damage never removes a
  creature component.
\<close>

lemma take_damage_eq:
  "take_damage c damage = c\<lparr>current_hp := max 0 (current_hp c - damage)\<rparr>"
  by (simp add: take_damage_def Let_def max_def)

lemma actor_take_damage_Some:
  "creature a = Some c \<Longrightarrow>
   actor_take_damage a damage = a\<lparr>creature := Some (c\<lparr>current_hp := max 0 (current_hp c - damage)\<rparr>)\<rparr>"
  by (simp add: actor_take_damage_def take_damage_eq)

lemma creature_take_damage_keeps_component:
  "(creature (current_objects (creature_take_damage k damage w) ! r) = None)
     = (creature (current_objects w ! r) = None)"
proof (cases "r = k \<and> k < length (current_objects w)")
  case True
  then show ?thesis by (simp add: creature_take_damage_def actor_take_damage_def)
next
  case False
  then have "current_objects (creature_take_damage k damage w) ! r = current_objects w ! r"
    by (cases "r = k") (simp_all add: creature_take_damage_def list_update_beyond)
  then show ?thesis by simp
qed

lemma fireball_loop_keeps_component:
  "(creature (current_objects (fst (fireball_loop damage tiles w ds)) ! r) = None)
     = (creature (current_objects w ! r) = None)"
  by (induction damage tiles w ds rule: fireball_loop.induct)
     (auto simp: creature_take_damage_keeps_component split: option.splits)

text \<open>
  The loop of \<^verbatim>\<open>cast_fireball\<close>: the message log is not touched, the flag records
  whether some tile had a creature, and over tiles without repetition every actor that
  the lookup finds on one of the tiles is damaged once and every other actor is left
  as it was.
\<close>

lemma fireball_loop_message_log:
  "message_log (fst (fireball_loop damage tiles w ds)) = message_log w"
  by (induction damage tiles w ds rule: fireball_loop.induct)
     (auto simp: message_log_take_damage split: option.splits)

lemma fireball_loop_flag:
  "snd (fireball_loop damage tiles w ds) =
     (ds \<or> (\<exists>t \<in> set tiles. creature_at_coords w (fst t) (snd t) \<noteq> None))"
  by (induction damage tiles w ds rule: fireball_loop.induct)
     (auto simp: creature_at_coords_take_damage split: option.splits)

lemma fireball_loop_no_hit:
  "\<forall>t \<in> set tiles. creature_at_coords w (fst t) (snd t) = None \<Longrightarrow>
   fireball_loop damage tiles w ds = (w, ds)"
  by (induction damage tiles w ds rule: fireball_loop.induct) auto

lemma fireball_loop_game_message:
  "fireball_loop damage tiles (game_message msg col w) ds =
     (game_message msg col (fst (fireball_loop damage tiles w ds)), snd (fireball_loop damage tiles w ds))"
proof (induction damage tiles w ds rule: fireball_loop.induct)
  case (1 damage w ds)
  then show ?case by simp
next
  case (2 damage tx ty tiles w ds)
  have comm: "creature_take_damage k damage (game_message msg col w)
                = game_message msg col (creature_take_damage k damage w)" for k
    by (simp add: creature_take_damage_def game_message_def)
  show ?case
    using 2 by (auto simp: creature_at_coords_game_message comm split: option.splits)
qed

lemma fireball_loop_objects:
  "distinct tiles \<Longrightarrow>
   current_objects (fst (fireball_loop damage tiles w ds)) ! j =
     (if (actor_x (current_objects w ! j), actor_y (current_objects w ! j)) \<in> set tiles
         \<and> creature_at_coords w (actor_x (current_objects w ! j)) (actor_y (current_objects w ! j)) = Some j
      then actor_take_damage (current_objects w ! j) damage
      else current_objects w ! j)"
proof (induction damage tiles w ds rule: fireball_loop.induct)
  case (1 damage w ds)
  then show ?case by simp
next
  case (2 damage tx ty tiles w ds)
  show ?case
  proof (cases "creature_at_coords w tx ty")
    case None
    with 2 show ?thesis by auto
  next
    case (Some k)
    note k = creature_at_coords_Some[OF Some]
    let ?w1 = "creature_take_damage k damage w"
    have ih: "current_objects (fst (fireball_loop damage tiles ?w1 True)) ! j =
     (if (actor_x (current_objects ?w1 ! j), actor_y (current_objects ?w1 ! j)) \<in> set tiles
         \<and> creature_at_coords ?w1 (actor_x (current_objects ?w1 ! j)) (actor_y (current_objects ?w1 ! j)) = Some j
      then actor_take_damage (current_objects ?w1 ! j) damage
      else current_objects ?w1 ! j)"
      using "2.IH"(2)[OF Some] "2.prems" by simp
    show ?thesis
    proof (cases "j = k")
      case True
      have pos: "actor_x (current_objects ?w1 ! k) = tx" "actor_y (current_objects ?w1 ! k) = ty"
        using k by (simp_all add: creature_take_damage_def actor_take_damage_def)
      have "(tx, ty) \<notin> set tiles" using "2.prems" by simp
      with ih True pos have "current_objects (fst (fireball_loop damage tiles ?w1 True)) ! j
           = current_objects ?w1 ! k" by simp
      also have "\<dots> = actor_take_damage (current_objects w ! k) damage"
        using k(1) by (simp add: creature_take_damage_def)
      finally show ?thesis using True Some k by simp
    next
      case False
      have same: "current_objects ?w1 ! j = current_objects w ! j"
        using False by (simp add: creature_take_damage_def)
      show ?thesis
        using ih Some False "2.prems" unfolding same creature_at_coords_take_damage
        by auto
    qed
  qed
qed

text \<open>
  The loop of \<^verbatim>\<open>cast_lightening\<close> on a line that does not have exactly one tile never
  leaves early; it skips the tile of index 0 and treats the others as the loop of
  \<^verbatim>\<open>cast_fireball\<close> does.
\<close>

lemma lightening_loop_later:
  "n \<noteq> 1 \<Longrightarrow> i \<noteq> 0 \<Longrightarrow>
   lightening_loop n damage i tiles w ds = Inl (fireball_loop damage tiles w ds)"
  by (induction n damage i tiles w ds rule: lightening_loop.induct)
     (auto split: option.splits)

lemma lightening_loop_first:
  "n \<noteq> 1 \<Longrightarrow>
   lightening_loop n damage 0 (t # tiles) w ds = Inl (fireball_loop damage tiles w ds)"
  by (cases t) (auto simp: lightening_loop_later split: option.splits)

text \<open>The announcement of a cast is never the nothing-was-hit message.\<close>

lemma casts_lightening_neq: "n @ '' casts lightening'' \<noteq> ''Nothing was hit, what a waste.''"
proof
  assume "n @ '' casts lightening'' = ''Nothing was hit, what a waste.''"
  then have "last (n @ '' casts lightening'') = last ''Nothing was hit, what a waste.''"
    by (rule arg_cong)
  then show False by simp
qed

lemma casts_fireball_neq: "n @ '' casts fireball'' \<noteq> ''Nothing was hit, what a waste.''"
proof
  assume "n @ '' casts fireball'' = ''Nothing was hit, what a waste.''"
  then have "last (n @ '' casts fireball'') = last ''Nothing was hit, what a waste.''"
    by (rule arg_cong)
  then show False by simp
qed

text \<open>What a cast that returns \<^verbatim>\<open>True\<close> has done to the objects and to the message log.\<close>

lemma cast_lightening_True:
  assumes "cast_lightening tiles_in_line (Some sel) caster (damage, max_r) w = Inr (True, w')"
      and "tiles_in_line (actor_x (current_objects w ! caster), actor_y (current_objects w ! caster)) sel = tiles"
  shows "\<exists>c. creature (current_objects w' ! caster) = Some c
           \<and> current_objects w' = current_objects (fst (fireball_loop damage (tl tiles) w False))
           \<and> message_log w' = message_log w @ (personal_name c @ '' casts lightening'', COLOR_WHITE)
                # (if snd (fireball_loop damage (tl tiles) w False) then []
                   else [(''Nothing was hit, what a waste.'', COLOR_WHITE)])"
proof (cases tiles)
  case Nil
  with assms show ?thesis
    by (auto simp: cast_lightening_def game_message_def split: option.splits)
next
  case (Cons t rest)
  obtain tx ty where t: "t = (tx, ty)" by (cases t)
  show ?thesis
  proof (cases "length tiles = 1")
    case True
    with Cons have rest: "rest = []" by simp
    show ?thesis
      using assms Cons rest t
      by (auto simp: cast_lightening_def game_message_def split: option.splits)
  next
    case False
    have loop: "lightening_loop (length tiles) damage 0 tiles w False
                  = Inl (fireball_loop damage (tl tiles) w False)"
      using False Cons by (simp add: lightening_loop_first)
    show ?thesis
      using assms(1) loop fireball_loop_message_log[of damage "tl tiles" w False]
      unfolding cast_lightening_def
      by (auto simp: assms(2) game_message_def split: option.splits prod.splits)
  qed
qed

lemma cast_fireball_True:
  assumes "cast_fireball tiles_in_radius (Some sel) caster (damage, spell_range, spell_radius) w = Inr (True, w')"
      and "tiles_in_radius sel spell_radius = tiles"
  shows "\<exists>c. creature (current_objects w ! caster) = Some c
           \<and> current_objects w' = current_objects (fst (fireball_loop damage tiles w False))
           \<and> message_log w' = message_log w @ (personal_name c @ '' casts fireball'', COLOR_WHITE)
                # (if snd (fireball_loop damage tiles w False) then []
                   else [(''Nothing was hit, what a waste.'', COLOR_WHITE)])"
proof -
  obtain c where c: "creature (current_objects w ! caster) = Some c"
    using assms(1) by (auto simp: cast_fireball_def split: option.splits)
  let ?msg = "personal_name c @ '' casts fireball''"
  let ?r = "fireball_loop damage tiles w False"
  have loop: "fireball_loop damage tiles (game_message ?msg COLOR_WHITE w) False
                = (game_message ?msg COLOR_WHITE (fst ?r), snd ?r)"
    by (rule fireball_loop_game_message)
  have w': "w' = (if \<not> snd ?r
                  then game_message ''Nothing was hit, what a waste.'' COLOR_WHITE
                         (game_message ?msg COLOR_WHITE (fst ?r))
                  else game_message ?msg COLOR_WHITE (fst ?r))"
    using assms(1) c loop unfolding cast_fireball_def
    by (simp add: assms(2) split: if_splits)
  show ?thesis
    using c fireball_loop_message_log[of damage tiles w False]
    by (simp add: w' current_objects_game_message message_log_game_message)
qed

text \<open>
  A cast on a selected tile by a caster that has a creature component returns
  \<^verbatim>\<open>True\<close>, unless the line of the lightening has exactly one tile.
\<close>

lemma cast_lightening_returns_True:
  assumes line: "tiles_in_line (actor_x (current_objects w ! caster), actor_y (current_objects w ! caster)) sel = tiles"
      and len: "length tiles \<noteq> 1"
      and caster: "creature (current_objects w ! caster) = Some cc"
  shows "\<exists>w'. cast_lightening tiles_in_line (Some sel) caster (damage, max_r) w = Inr (True, w')"
proof -
  let ?r = "fireball_loop damage (tl tiles) w False"
  have loop: "lightening_loop (length tiles) damage 0 tiles w False = Inl ?r"
  proof (cases tiles)
    case Nil
    then show ?thesis by simp
  next
    case (Cons t rest)
    with len show ?thesis by (simp add: lightening_loop_first)
  qed
  have "creature (current_objects (fst ?r) ! caster) \<noteq> None"
    using caster by (simp add: fireball_loop_keeps_component)
  then obtain c1 where c1: "creature (current_objects (fst ?r) ! caster) = Some c1" by auto
  show ?thesis
    unfolding cast_lightening_def
    using loop c1 by (cases ?r) (simp add: line Let_def)
qed

lemma cast_fireball_returns_True:
  assumes caster: "creature (current_objects w ! caster) = Some cc"
  shows "\<exists>w'. cast_fireball tiles_in_radius (Some sel) caster (damage, spell_range, spell_radius) w = Inr (True, w')"
  unfolding cast_fireball_def using caster
  by (simp add: Let_def split: prod.splits)

text \<open>Turns of a confused actor.\<close>

lemma AiConfuse_take_turn_length:
  "length (current_objects (AiConfuse_take_turn j step w)) = length (current_objects w)"
  by (simp add: AiConfuse_take_turn_def Let_def split: option.splits ai.splits)

lemma take_turns_append:
  "take_turns j (xs @ ys) w = take_turns j ys (take_turns j xs w)"
  by (induction xs arbitrary: w) auto

lemma take_turns_confused:
  "j < length (current_objects w) \<Longrightarrow>
   ai (current_objects w ! j) = Some (AiConfuse orig n own) \<Longrightarrow>
   length steps \<le> nat n \<Longrightarrow>
   j < length (current_objects (take_turns j steps w))
   \<and> ai (current_objects (take_turns j steps w) ! j)
       = Some (AiConfuse orig (n - int (length steps)) own)"
proof (induction steps arbitrary: w n)
  case Nil
  then show ?case by simp
next
  case (Cons s steps)
  let ?w1 = "AiConfuse_take_turn j s w"
  from Cons.prems have n: "0 < n" by simp
  have 1: "j < length (current_objects ?w1)"
    using Cons.prems(1) by (simp add: AiConfuse_take_turn_length)
  have 2: "ai (current_objects ?w1 ! j) = Some (AiConfuse orig (n - 1) own)"
    using Cons.prems(1,2) n by (simp add: AiConfuse_take_turn_def Let_def)
  have 3: "length steps \<le> nat (n - 1)" using Cons.prems(3) by simp
  from Cons.IH[OF 1 2 3] show ?case by (simp add: algebra_simps)
qed

lemma take_turns_restored:
  assumes "j < length (current_objects w)"
      and "ai (current_objects w ! j) = Some (AiConfuse orig n own)"
      and "length steps = Suc (nat n)"
  shows "ai (current_objects (take_turns j steps w) ! j) = orig"
proof -
  from assms(3) obtain xs s where steps: "steps = xs @ [s]" and xs: "length xs = nat n"
    by (metis length_Suc_conv_rev)
  let ?w1 = "take_turns j xs w"
  from take_turns_confused[OF assms(1,2), of xs] xs
  have 1: "j < length (current_objects ?w1)"
    and 2: "ai (current_objects ?w1 ! j) = Some (AiConfuse orig (n - int (nat n)) own)"
    by simp_all
  have "\<not> 0 < n - int (nat n)" by simp
  with 1 2 have "ai (current_objects (AiConfuse_take_turn j s ?w1) ! j) = orig"
    by (simp add: AiConfuse_take_turn_def Let_def)
  then show ?thesis by (simp add: steps take_turns_append)
qed

lemma cast_confusion_ai:
  assumes cast: "cast_confusion (Some (tx, ty)) caster effect_length w = Inr (True, w')"
      and j: "creature_at_coords w tx ty = Some j"
  shows "length (current_objects w') = length (current_objects w)"
    and "ai (current_objects w' ! j) = Some (AiConfuse (ai (current_objects w ! j)) effect_length (Some j))"
  using cast j creature_at_coords_Some(1)[OF j]
  by (auto simp: cast_confusion_def game_message_def set_ai_def Let_def split: option.splits)

section \<open>Line and area damage\<close>

text \<open>
  Claim C1, as amended. A cast of \<^verbatim>\<open>cast_lightening\<close> on a selected tile, by a caster
  that has a creature component, over a line of more than one tile in which no tile is
  repeated, returns \<^verbatim>\<open>True\<close>; the creature found on a tile of the line other than the
  first has afterwards the current health \<open>max 0 (current_hp - damage)\<close> and is
  otherwise as before, and the creature found on the first tile of the line is exactly
  as before.
\<close>

theorem cast_lightening_damages_line:
  assumes line: "tiles_in_line (actor_x (current_objects w ! caster), actor_y (current_objects w ! caster)) sel = tiles"
      and len: "1 < length tiles"
      and dist: "distinct tiles"
      and caster: "creature (current_objects w ! caster) = Some cc"
      and i: "i < length tiles" "tiles ! i = (tx, ty)"
      and j: "creature_at_coords w tx ty = Some j"
      and c: "creature (current_objects w ! j) = Some c"
  shows "\<exists>w'. cast_lightening tiles_in_line (Some sel) caster (damage, max_r) w = Inr (True, w')
           \<and> current_objects w' ! j =
               (if i = 0 then current_objects w ! j
                else (current_objects w ! j)
                       \<lparr>creature := Some (c\<lparr>current_hp := max 0 (current_hp c - damage)\<rparr>)\<rparr>)"
proof -
  from len have "length tiles \<noteq> 1" by simp
  from cast_lightening_returns_True[where tiles_in_line = tiles_in_line and tiles = tiles,
         OF line this caster]
  obtain w' where cast: "cast_lightening tiles_in_line (Some sel) caster (damage, max_r) w = Inr (True, w')"
    by blast
  from cast_lightening_True[OF cast line]
  have objs: "current_objects w' = current_objects (fst (fireball_loop damage (tl tiles) w False))"
    by blast
  note pos = creature_at_coords_Some(2,3)[OF j]
  from i obtain t rest where tiles: "tiles = t # rest" by (cases tiles) auto
  from dist tiles have rest: "distinct rest" "t \<notin> set rest" by auto
  have "current_objects w' ! j =
          (if (tx, ty) \<in> set rest then actor_take_damage (current_objects w ! j) damage
           else current_objects w ! j)"
    unfolding objs using fireball_loop_objects[OF rest(1), of damage w False j] pos j tiles
    by simp
  moreover have "(tx, ty) \<in> set rest \<longleftrightarrow> i \<noteq> 0"
  proof (cases i)
    case 0
    with i tiles rest show ?thesis by simp
  next
    case (Suc k)
    with i tiles have "k < length rest" "rest ! k = (tx, ty)" by auto
    then have "(tx, ty) \<in> set rest" by (metis nth_mem)
    with Suc show ?thesis by simp
  qed
  ultimately have "current_objects w' ! j =
               (if i = 0 then current_objects w ! j
                else (current_objects w ! j)
                       \<lparr>creature := Some (c\<lparr>current_hp := max 0 (current_hp c - damage)\<rparr>)\<rparr>)"
    by (simp add: actor_take_damage_Some[OF c])
  with cast show ?thesis by blast
qed

text \<open>
  The hero strikes the rat next to him with damage 2: the health of the rat goes from
  3 to 1, the hero keeps his 10.
\<close>

theorem cast_lightening_damages_line_witness:
  "(\<lambda>a b. [a, b]) (actor_x (current_objects demo_world ! 0), actor_y (current_objects demo_world ! 0)) (1, 0)
      = [(0 :: int, 0 :: int), (1, 0)]
   \<and> 1 < length [(0 :: int, 0 :: int), (1, 0)]
   \<and> distinct [(0 :: int, 0 :: int), (1, 0)]
   \<and> creature (current_objects demo_world ! 0)
       = Some \<lparr>personal_name = ''hero'', current_hp = 10, max_hp = 10\<rparr>
   \<and> creature_at_coords demo_world 0 0 = Some 0
   \<and> creature_at_coords demo_world 1 0 = Some 1
   \<and> creature (current_objects demo_world ! 1)
       = Some \<lparr>personal_name = ''rat'', current_hp = 3, max_hp = 4\<rparr>
   \<and> cast_lightening (\<lambda>a b. [a, b]) (Some (1, 0)) 0 (2, 3) demo_world =
       Inr (True,
            \<lparr>current_objects =
               [\<lparr>actor_x = 0, actor_y = 0, display_name = ''hero'',
                 creature = Some \<lparr>personal_name = ''hero'', current_hp = 10, max_hp = 10\<rparr>,
                 ai = None\<rparr>,
                \<lparr>actor_x = 1, actor_y = 0, display_name = ''rat'',
                 creature = Some \<lparr>personal_name = ''rat'', current_hp = 1, max_hp = 4\<rparr>,
                 ai = Some (AiOther ''AiChase'' (Some 1))\<rparr>],
             message_log = [(''hero casts lightening'', COLOR_WHITE)]\<rparr>)
   \<and> current_objects
         (\<lparr>current_objects =
               [\<lparr>actor_x = 0, actor_y = 0, display_name = ''hero'',
                 creature = Some \<lparr>personal_name = ''hero'', current_hp = 10, max_hp = 10\<rparr>,
                 ai = None\<rparr>,
                \<lparr>actor_x = 1, actor_y = 0, display_name = ''rat'',
                 creature = Some \<lparr>personal_name = ''rat'', current_hp = 1, max_hp = 4\<rparr>,
                 ai = Some (AiOther ''AiChase'' (Some 1))\<rparr>],
             message_log = [(''hero casts lightening'', COLOR_WHITE)]\<rparr>) ! 1
       = (current_objects demo_world ! 1)
           \<lparr>creature := Some \<lparr>personal_name = ''rat'', current_hp = 1, max_hp = 4\<rparr>\<rparr>
   \<and> current_objects
         (\<lparr>current_objects =
               [\<lparr>actor_x = 0, actor_y = 0, display_name = ''hero'',
                 creature = Some \<lparr>personal_name = ''hero'', current_hp = 10, max_hp = 10\<rparr>,
                 ai = None\<rparr>,
                \<lparr>actor_x = 1, actor_y = 0, display_name = ''rat'',
                 creature = Some \<lparr>personal_name = ''rat'', current_hp = 1, max_hp = 4\<rparr>,
                 ai = Some (AiOther ''AiChase'' (Some 1))\<rparr>],
             message_log = [(''hero casts lightening'', COLOR_WHITE)]\<rparr>) ! 0
       = current_objects demo_world ! 0"
  (is "?line \<and> ?len \<and> ?dist \<and> ?hero \<and> ?l0 \<and> ?l1 \<and> ?rat \<and> ?cast \<and> ?struck \<and> ?spared")
proof -
  have line: ?line by (simp add: demo_defs)
  have len: ?len by simp
  have dist: ?dist by simp
  have hero: ?hero by (simp add: demo_defs)
  have rat: ?rat by (simp add: demo_defs)
  from cast_lightening_damages_line
         [where tiles_in_line = "\<lambda>a b. [a, b]" and damage = 2 and max_r = 3
            and i = 1 and tx = 1 and ty = 0,
          OF line len dist hero _ _ demo_lookup(2) rat]
  obtain w1 where cast1: "cast_lightening (\<lambda>a b. [a, b]) (Some (1, 0)) 0 (2, 3) demo_world = Inr (True, w1)"
    and struck: "current_objects w1 ! 1 =
                   (current_objects demo_world ! 1)
                     \<lparr>creature := Some \<lparr>personal_name = ''rat'', current_hp = 1, max_hp = 4\<rparr>\<rparr>"
    by auto
  from cast_lightening_damages_line
         [where tiles_in_line = "\<lambda>a b. [a, b]" and damage = 2 and max_r = 3
            and i = 0 and tx = 0 and ty = 0,
          OF line len dist hero _ _ demo_lookup(1) hero]
       cast1
  have spared: "current_objects w1 ! 0 = current_objects demo_world ! 0"
    by auto
  have cast: ?cast
    by (simp add: cast_lightening_def creature_at_coords_def occupies_def game_message_def
          creature_take_damage_def actor_take_damage_def take_damage_def demo_defs)
  from cast cast1 struck have s1: ?struck by simp
  from cast cast1 spared have s0: ?spared by simp
  from line len dist hero demo_lookup(1,2) rat cast s1 s0 show ?thesis by blast
qed

text \<open>
  Claim C1 as stated fails when the line repeats a tile: the loop damages the creature
  of a tile once for each time the tile comes up. With the line of the hero's tile and
  twice the tile of the rat and damage 1, the cast returns \<^verbatim>\<open>True\<close> and the health of
  the rat goes from 3 to 1, not to 2.
\<close>

theorem cast_lightening_repeated_tile_counterexample:
  "cast_lightening (\<lambda>a b. [a, b, b]) (Some (1, 0)) 0 (1, 3) demo_world =
       Inr (True,
            \<lparr>current_objects =
               [\<lparr>actor_x = 0, actor_y = 0, display_name = ''hero'',
                 creature = Some \<lparr>personal_name = ''hero'', current_hp = 10, max_hp = 10\<rparr>,
                 ai = None\<rparr>,
                \<lparr>actor_x = 1, actor_y = 0, display_name = ''rat'',
                 creature = Some \<lparr>personal_name = ''rat'', current_hp = 1, max_hp = 4\<rparr>,
                 ai = Some (AiOther ''AiChase'' (Some 1))\<rparr>],
             message_log = [(''hero casts lightening'', COLOR_WHITE)]\<rparr>)
   \<and> creature_at_coords demo_world 1 0 = Some 1
   \<and> creature (current_objects demo_world ! 1)
       = Some \<lparr>personal_name = ''rat'', current_hp = 3, max_hp = 4\<rparr>
   \<and> (1 :: int) \<noteq> max 0 (3 - 1)"
  by (simp add: cast_lightening_def creature_at_coords_def occupies_def game_message_def
        creature_take_damage_def actor_take_damage_def take_damage_def demo_defs)

text \<open>
  Claim C3, as amended. A cast of \<^verbatim>\<open>cast_fireball\<close> on a selected tile, by a caster that
  has a creature component, over an area in which no tile is repeated, returns
  \<^verbatim>\<open>True\<close>; the creature found on any tile of the area has afterwards the current
  health \<open>max 0 (current_hp - damage)\<close> and is otherwise as before. No tile is left
  out, the tile of the caster included.
\<close>

theorem cast_fireball_damages_radius:
  assumes caster: "creature (current_objects w ! caster) = Some cc"
      and dist: "distinct (tiles_in_radius sel spell_radius)"
      and t: "(tx, ty) \<in> set (tiles_in_radius sel spell_radius)"
      and j: "creature_at_coords w tx ty = Some j"
      and c: "creature (current_objects w ! j) = Some c"
  shows "\<exists>w'. cast_fireball tiles_in_radius (Some sel) caster (damage, spell_range, spell_radius) w
                 = Inr (True, w')
           \<and> current_objects w' ! j =
               (current_objects w ! j)
                 \<lparr>creature := Some (c\<lparr>current_hp := max 0 (current_hp c - damage)\<rparr>)\<rparr>"
proof -
  from cast_fireball_returns_True[OF caster, of tiles_in_radius sel damage spell_range spell_radius]
  obtain w' where cast: "cast_fireball tiles_in_radius (Some sel) caster (damage, spell_range, spell_radius) w
                           = Inr (True, w')"
    by blast
  from cast_fireball_True[OF cast refl]
  have objs: "current_objects w' =
                current_objects (fst (fireball_loop damage (tiles_in_radius sel spell_radius) w False))"
    by blast
  note pos = creature_at_coords_Some(2,3)[OF j]
  have "current_objects w' ! j = actor_take_damage (current_objects w ! j) damage"
    unfolding objs
    using fireball_loop_objects[OF dist, of damage w False j] pos j t by simp
  with cast show ?thesis by (auto simp: actor_take_damage_Some[OF c])
qed

text \<open>
  The hero throws a fireball of damage 2 so that his own tile is in the area: his
  health goes from 10 to 8.
\<close>

theorem cast_fireball_damages_radius_witness:
  "creature (current_objects demo_world ! 0)
       = Some \<lparr>personal_name = ''hero'', current_hp = 10, max_hp = 10\<rparr>
   \<and> distinct [(0 :: int, 0 :: int), (1, 0), (0, 1), (1, 1)]
   \<and> (0, 0) \<in> set [(0 :: int, 0 :: int), (1, 0), (0, 1), (1, 1)]
   \<and> creature_at_coords demo_world 0 0 = Some 0
   \<and> cast_fireball (\<lambda>c r. [(0, 0), (1, 0), (0, 1), (1, 1)]) (Some (1, 1)) 0 (2, 3, 1) demo_world =
       Inr (True,
            \<lparr>current_objects =
               [\<lparr>actor_x = 0, actor_y = 0, display_name = ''hero'',
                 creature = Some \<lparr>personal_name = ''hero'', current_hp = 8, max_hp = 10\<rparr>,
                 ai = None\<rparr>,
                \<lparr>actor_x = 1, actor_y = 0, display_name = ''rat'',
                 creature = Some \<lparr>personal_name = ''rat'', current_hp = 1, max_hp = 4\<rparr>,
                 ai = Some (AiOther ''AiChase'' (Some 1))\<rparr>],
             message_log = [(''hero casts fireball'', COLOR_WHITE)]\<rparr>)
   \<and> current_objects
         (\<lparr>current_objects =
               [\<lparr>actor_x = 0, actor_y = 0, display_name = ''hero'',
                 creature = Some \<lparr>personal_name = ''hero'', current_hp = 8, max_hp = 10\<rparr>,
                 ai = None\<rparr>,
                \<lparr>actor_x = 1, actor_y = 0, display_name = ''rat'',
                 creature = Some \<lparr>personal_name = ''rat'', current_hp = 1, max_hp = 4\<rparr>,
                 ai = Some (AiOther ''AiChase'' (Some 1))\<rparr>],
             message_log = [(''hero casts fireball'', COLOR_WHITE)]\<rparr>) ! 0
       = (current_objects demo_world ! 0)
           \<lparr>creature := Some \<lparr>personal_name = ''hero'', current_hp = 8, max_hp = 10\<rparr>\<rparr>"
  (is "?hero \<and> ?dist \<and> ?mem \<and> ?l0 \<and> ?cast \<and> ?burnt")
proof -
  have hero: ?hero by (simp add: demo_defs)
  have dist: ?dist by simp
  have mem: ?mem by simp
  from cast_fireball_damages_radius
         [where tiles_in_radius = "\<lambda>c r. [(0, 0), (1, 0), (0, 1), (1, 1)]" and sel = "(1, 1)"
            and damage = 2 and spell_range = 3 and spell_radius = 1 and tx = 0 and ty = 0,
          OF hero dist mem demo_lookup(1) hero]
  obtain w1 where cast1: "cast_fireball (\<lambda>c r. [(0, 0), (1, 0), (0, 1), (1, 1)]) (Some (1, 1)) 0 (2, 3, 1) demo_world
                            = Inr (True, w1)"
    and burnt: "current_objects w1 ! 0 =
                  (current_objects demo_world ! 0)
                    \<lparr>creature := Some \<lparr>personal_name = ''hero'', current_hp = 8, max_hp = 10\<rparr>\<rparr>"
    by auto
  have cast: ?cast
    by (simp add: cast_fireball_def creature_at_coords_def occupies_def game_message_def
          creature_take_damage_def actor_take_damage_def take_damage_def demo_defs)
  from cast cast1 burnt have b: ?burnt by simp
  from hero dist mem demo_lookup(1) cast b show ?thesis by blast
qed

text \<open>
  Claim C3 as stated fails when the area repeats a tile: with the tile of the rat twice
  in the area and damage 1, the cast returns \<^verbatim>\<open>True\<close> and the health of the rat goes
  from 3 to 1, not to 2.
\<close>

theorem cast_fireball_repeated_tile_counterexample:
  "cast_fireball (\<lambda>c r. [(1, 0), (1, 0)]) (Some (1, 0)) 0 (1, 3, 0) demo_world =
       Inr (True,
            \<lparr>current_objects =
               [\<lparr>actor_x = 0, actor_y = 0, display_name = ''hero'',
                 creature = Some \<lparr>personal_name = ''hero'', current_hp = 10, max_hp = 10\<rparr>,
                 ai = None\<rparr>,
                \<lparr>actor_x = 1, actor_y = 0, display_name = ''rat'',
                 creature = Some \<lparr>personal_name = ''rat'', current_hp = 1, max_hp = 4\<rparr>,
                 ai = Some (AiOther ''AiChase'' (Some 1))\<rparr>],
             message_log = [(''hero casts fireball'', COLOR_WHITE)]\<rparr>)
   \<and> creature_at_coords demo_world 1 0 = Some 1
   \<and> creature (current_objects demo_world ! 1)
       = Some \<lparr>personal_name = ''rat'', current_hp = 3, max_hp = 4\<rparr>
   \<and> (1 :: int) \<noteq> max 0 (3 - 1)"
  by (simp add: cast_fireball_def creature_at_coords_def occupies_def game_message_def
        creature_take_damage_def actor_take_damage_def take_damage_def demo_defs)

section \<open>Messages\<close>

text \<open>
  Claim C4, as amended. For every cast of \<^verbatim>\<open>cast_lightening\<close> or \<^verbatim>\<open>cast_fireball\<close> that
  returns \<^verbatim>\<open>True\<close>, the message "Nothing was hit, what a waste." is among the messages
  the cast adds to the log exactly when no creature was damaged, that is, when no tile
  the spell affects (the tiles of the line after the first, every tile of the area) has
  a creature on it; and when the message is emitted no object of the game has changed.
\<close>

theorem nothing_hit_message_iff:
  "(cast_lightening tiles_in_line (Some sel) caster (damage, max_r) w = Inr (True, w') \<longrightarrow>
      (((''Nothing was hit, what a waste.'', COLOR_WHITE)
           \<in> set (drop (length (message_log w)) (message_log w')))
         = (\<forall>t \<in> set (tl (tiles_in_line (actor_x (current_objects w ! caster),
                                            actor_y (current_objects w ! caster)) sel)).
              creature_at_coords w (fst t) (snd t) = None))
      \<and> ((''Nothing was hit, what a waste.'', COLOR_WHITE)
           \<in> set (drop (length (message_log w)) (message_log w'))
         \<longrightarrow> current_objects w' = current_objects w))
   \<and> (cast_fireball tiles_in_radius (Some sel) caster (damage, spell_range, spell_radius) w = Inr (True, w') \<longrightarrow>
      (((''Nothing was hit, what a waste.'', COLOR_WHITE)
           \<in> set (drop (length (message_log w)) (message_log w')))
         = (\<forall>t \<in> set (tiles_in_radius sel spell_radius).
              creature_at_coords w (fst t) (snd t) = None))
      \<and> ((''Nothing was hit, what a waste.'', COLOR_WHITE)
           \<in> set (drop (length (message_log w)) (message_log w'))
         \<longrightarrow> current_objects w' = current_objects w))"
proof (intro conjI impI)
  let ?line = "tl (tiles_in_line (actor_x (current_objects w ! caster),
                                  actor_y (current_objects w ! caster)) sel)"
  assume cast: "cast_lightening tiles_in_line (Some sel) caster (damage, max_r) w = Inr (True, w')"
  from cast_lightening_True[OF cast refl] obtain c :: ComCreature where
    objs: "current_objects w' = current_objects (fst (fireball_loop damage ?line w False))" and
    log: "message_log w' = message_log w @ (personal_name c @ '' casts lightening'', COLOR_WHITE)
            # (if snd (fireball_loop damage ?line w False) then []
               else [(''Nothing was hit, what a waste.'', COLOR_WHITE)])"
    by auto
  show iff: "((''Nothing was hit, what a waste.'', COLOR_WHITE)
           \<in> set (drop (length (message_log w)) (message_log w')))
         = (\<forall>t \<in> set ?line. creature_at_coords w (fst t) (snd t) = None)"
    by (simp add: log casts_lightening_neq fireball_loop_flag)
  assume "(''Nothing was hit, what a waste.'', COLOR_WHITE)
           \<in> set (drop (length (message_log w)) (message_log w'))"
  with iff have "\<forall>t \<in> set ?line. creature_at_coords w (fst t) (snd t) = None" by simp
  then show "current_objects w' = current_objects w"
    by (simp add: objs fireball_loop_no_hit)
next
  let ?area = "tiles_in_radius sel spell_radius"
  assume cast: "cast_fireball tiles_in_radius (Some sel) caster (damage, spell_range, spell_radius) w = Inr (True, w')"
  from cast_fireball_True[OF cast refl] obtain c :: ComCreature where
    objs: "current_objects w' = current_objects (fst (fireball_loop damage ?area w False))" and
    log: "message_log w' = message_log w @ (personal_name c @ '' casts fireball'', COLOR_WHITE)
            # (if snd (fireball_loop damage ?area w False) then []
               else [(''Nothing was hit, what a waste.'', COLOR_WHITE)])"
    by auto
  show iff: "((''Nothing was hit, what a waste.'', COLOR_WHITE)
           \<in> set (drop (length (message_log w)) (message_log w')))
         = (\<forall>t \<in> set ?area. creature_at_coords w (fst t) (snd t) = None)"
    by (simp add: log casts_fireball_neq fireball_loop_flag)
  assume "(''Nothing was hit, what a waste.'', COLOR_WHITE)
           \<in> set (drop (length (message_log w)) (message_log w'))"
  with iff have "\<forall>t \<in> set ?area. creature_at_coords w (fst t) (snd t) = None" by simp
  then show "current_objects w' = current_objects w"
    by (simp add: objs fireball_loop_no_hit)
qed

text \<open>
  A lightening into the void reports that nothing was hit; a fireball on the rat does not.
\<close>

theorem nothing_hit_message_iff_witness:
  "cast_lightening (\<lambda>a b. [a, b]) (Some (5, 5)) 0 (5, 3) demo_world =
     Inr (True, demo_world\<lparr>message_log :=
                   [(''hero casts lightening'', COLOR_WHITE),
                    (''Nothing was hit, what a waste.'', COLOR_WHITE)]\<rparr>)
   \<and> creature_at_coords demo_world 5 5 = None
   \<and> cast_fireball (\<lambda>c r. [(1, 0)]) (Some (1, 0)) 0 (2, 3, 0) demo_world =
     Inr (True, \<lparr>current_objects = [demo_hero, actor_take_damage demo_rat 2],
                 message_log = [(''hero casts fireball'', COLOR_WHITE)]\<rparr>)
   \<and> creature_at_coords demo_world 1 0 = Some 1
   \<and> (''Nothing was hit, what a waste.'', COLOR_WHITE)
        \<in> set (drop (length (message_log demo_world))
                  [(''hero casts lightening'', COLOR_WHITE),
                   (''Nothing was hit, what a waste.'', COLOR_WHITE)])
   \<and> (''Nothing was hit, what a waste.'', COLOR_WHITE)
        \<notin> set (drop (length (message_log demo_world)) [(''hero casts fireball'', COLOR_WHITE)])"
  (is "?castl \<and> ?l5 \<and> ?castf \<and> ?l1 \<and> ?emitted \<and> ?silent")
proof -
  have castl: ?castl
    by (simp add: cast_lightening_def creature_at_coords_def occupies_def game_message_def demo_defs)
  have castf: ?castf
    by (simp add: cast_fireball_def creature_at_coords_def occupies_def game_message_def
          creature_take_damage_def actor_take_damage_def take_damage_def demo_defs)
  have emitted: ?emitted
    using nothing_hit_message_iff[where tiles_in_line = "\<lambda>a b. [a, b]" and sel = "(5, 5)"
            and caster = 0 and damage = 5 and max_r = 3 and w = demo_world,
            THEN conjunct1, THEN mp, OF castl, THEN conjunct1]
          demo_lookup(3)
    by (simp add: demo_defs)
  have silent: ?silent
    using nothing_hit_message_iff[where tiles_in_radius = "\<lambda>c r. [(1, 0)]" and sel = "(1, 0)"
            and caster = 0 and damage = 2 and spell_range = 3 and spell_radius = 0
            and w = demo_world,
            THEN conjunct2, THEN mp, OF castf, THEN conjunct1]
          demo_lookup(2)
    by (simp add: demo_defs)
  from castl demo_lookup(3) castf demo_lookup(2) emitted silent show ?thesis by blast
qed

text \<open>
  Claim C4 as stated fails for a cast in which a tile was selected but which does not
  return \<^verbatim>\<open>True\<close>: the hero aims the lightening at his own tile, the line is that one
  tile, no creature is damaged (the objects are those of before), and the only message
  is the warning; "Nothing was hit, what a waste." is not emitted.
\<close>

theorem nothing_hit_counterexample:
  "cast_lightening (\<lambda>a b. [a]) (Some (0, 0)) 0 (5, 3) demo_world =
     Inr (False, demo_world\<lparr>message_log :=
                   [(''Watch out! Aim away from yourself please.'', COLOR_WHITE)]\<rparr>)
   \<and> current_objects
         (demo_world\<lparr>message_log :=
            [(''Watch out! Aim away from yourself please.'', COLOR_WHITE)]\<rparr>)
       = current_objects demo_world
   \<and> (''Nothing was hit, what a waste.'', COLOR_WHITE)
        \<notin> set (drop (length (message_log demo_world))
                  [(''Watch out! Aim away from yourself please.'', COLOR_WHITE)])"
  by (simp add: cast_lightening_def creature_at_coords_def occupies_def game_message_def demo_defs)

text \<open>
  Claim C10. When the line has exactly one tile and a creature stands on it,
  \<^verbatim>\<open>cast_lightening\<close> returns \<^verbatim>\<open>False\<close>, the objects of the game are unchanged, and the
  message log grows by the warning alone: neither the announcement of the cast nor the
  nothing-was-hit message is emitted.
\<close>

theorem cast_lightening_at_oneself:
  assumes "tiles_in_line (actor_x (current_objects w ! caster), actor_y (current_objects w ! caster)) sel = [(tx, ty)]"
      and "creature_at_coords w tx ty = Some j"
  shows "cast_lightening tiles_in_line (Some sel) caster (damage, max_r) w =
           Inr (False, w\<lparr>message_log := message_log w @
                   [(''Watch out! Aim away from yourself please.'', COLOR_WHITE)]\<rparr>)"
  using assms by (simp add: cast_lightening_def game_message_def)

text \<open>
  The hero aims at his own tile.
\<close>

theorem cast_lightening_at_oneself_witness:
  "creature_at_coords demo_world 0 0 = Some 0
   \<and> cast_lightening (\<lambda>a b. [a]) (Some (0, 0)) 0 (5, 3) demo_world =
       Inr (False, demo_world\<lparr>message_log := message_log demo_world @
              [(''Watch out! Aim away from yourself please.'', COLOR_WHITE)]\<rparr>)"
proof -
  have "cast_lightening (\<lambda>a b. [a]) (Some (0, 0)) 0 (5, 3) demo_world =
       Inr (False, demo_world\<lparr>message_log := message_log demo_world @
              [(''Watch out! Aim away from yourself please.'', COLOR_WHITE)]\<rparr>)"
    using cast_lightening_at_oneself[where tiles_in_line = "\<lambda>a b. [a]" and w = demo_world
            and caster = 0 and sel = "(0, 0)" and tx = 0 and ty = 0 and j = 0
            and damage = 5 and max_r = 3]
          demo_lookup(1)
    by (simp add: demo_defs)
  with demo_lookup(1) show ?thesis by blast
qed

section \<open>Cancelled casts\<close>

text \<open>
  Claim C9. When the tile selection yields no tile, each of \<^verbatim>\<open>cast_lightening\<close>,
  \<^verbatim>\<open>cast_fireball\<close> and \<^verbatim>\<open>cast_confusion\<close> returns \<^verbatim>\<open>False\<close> and the game state is the
  one of before: no health, no ai component and no message has changed.
\<close>

theorem cancelled_cast_changes_nothing:
  "cast_lightening tiles_in_line None caster dmg_and_range w = Inr (False, w)
   \<and> cast_fireball tiles_in_radius None caster dmg_range_radius w = Inr (False, w)
   \<and> cast_confusion None caster effect_length w = Inr (False, w)"
  by (simp add: cast_lightening_def cast_fireball_def cast_confusion_def split_def)

section \<open>Confusion\<close>

text \<open>
  Claim C5. After a cast of \<^verbatim>\<open>cast_confusion\<close> that returns \<^verbatim>\<open>True\<close> on a tile where the
  lookup finds a creature, the ai component of that creature is an \<open>AiConfuse\<close> wrapper
  that stores the ai the creature had before and \<open>num_turns = effect_length\<close> (and is
  owned by the creature). The wrapper stays in place, counting down, during the
  \<open>effect_length\<close> turns of random movement, and the turn that follows them puts the ai
  the creature had before the cast back.
\<close>

theorem cast_confusion_wraps_and_restores:
  assumes cast: "cast_confusion (Some (tx, ty)) caster effect_length w = Inr (True, w')"
      and j: "creature_at_coords w tx ty = Some j"
  shows "ai (current_objects w' ! j)
           = Some (AiConfuse (ai (current_objects w ! j)) effect_length (Some j))
       \<and> (\<forall>steps. length steps \<le> nat effect_length \<longrightarrow>
            ai (current_objects (take_turns j steps w') ! j)
              = Some (AiConfuse (ai (current_objects w ! j))
                        (effect_length - int (length steps)) (Some j)))
       \<and> (\<forall>steps. length steps = Suc (nat effect_length) \<longrightarrow>
            ai (current_objects (take_turns j steps w') ! j) = ai (current_objects w ! j))"
proof -
  note a = cast_confusion_ai[OF cast j]
  have len: "j < length (current_objects w')"
    using a(1) creature_at_coords_Some(1)[OF j] by simp
  show ?thesis
    using a(2) take_turns_confused[OF len a(2)] take_turns_restored[OF len a(2)]
    by blast
qed

text \<open>
  The rat is confused for two turns: after two turns the wrapper has no turns left, after the third the rat chases again.
\<close>

theorem cast_confusion_wraps_and_restores_witness:
  "cast_confusion (Some (1, 0)) 0 2 demo_world =
     Inr (True, \<lparr>current_objects =
                   [demo_hero,
                    demo_rat\<lparr>ai := Some (AiConfuse (Some (AiOther ''AiChase'' (Some 1))) 2 (Some 1))\<rparr>],
                 message_log =
                   [(''hero casts confusion on rat'', COLOR_WHITE),
                    (''rat is confused for 2 turns!'', COLOR_GREEN)]\<rparr>)
   \<and> creature_at_coords demo_world 1 0 = Some 1
   \<and> ai (current_objects
           (take_turns 1 [(0, 1), (1, 0)]
              \<lparr>current_objects =
                   [demo_hero,
                    demo_rat\<lparr>ai := Some (AiConfuse (Some (AiOther ''AiChase'' (Some 1))) 2 (Some 1))\<rparr>],
                 message_log =
                   [(''hero casts confusion on rat'', COLOR_WHITE),
                    (''rat is confused for 2 turns!'', COLOR_GREEN)]\<rparr>) ! 1)
       = Some (AiConfuse (ai (current_objects demo_world ! 1)) 0 (Some 1))
   \<and> ai (current_objects
           (take_turns 1 [(0, 1), (1, 0), (- 1, 0)]
              \<lparr>current_objects =
                   [demo_hero,
                    demo_rat\<lparr>ai := Some (AiConfuse (Some (AiOther ''AiChase'' (Some 1))) 2 (Some 1))\<rparr>],
                 message_log =
                   [(''hero casts confusion on rat'', COLOR_WHITE),
                    (''rat is confused for 2 turns!'', COLOR_GREEN)]\<rparr>) ! 1)
       = ai (current_objects demo_world ! 1)"
  (is "?cast \<and> ?l1 \<and> ?confused \<and> ?restored")
proof -
  have str: "str_int 2 = ''2''"
    by (simp add: str_int_def str_nat.simps)
  have cast: ?cast
    by (simp add: cast_confusion_def creature_at_coords_def occupies_def game_message_def
          set_ai_def str demo_defs)
  note main = cast_confusion_wraps_and_restores[OF cast demo_lookup(2)]
  have confused: ?confused
    using main[THEN conjunct2, THEN conjunct1, rule_format, of "[(0, 1), (1, 0)]"] by simp
  have restored: ?restored
    using main[THEN conjunct2, THEN conjunct2, rule_format, of "[(0, 1), (1, 0), (- 1, 0)]"] by simp
  from cast demo_lookup(2) confused restored show ?thesis by blast
qed

section \<open>Healing\<close>

text \<open>
  Claim C7. \<^verbatim>\<open>cast_heal\<close> keeps the current health of its target within the maximum.
  For a target whose health is within its maximum: at full health the spell returns
  \<^verbatim>\<open>False\<close>, changes no object and emits the already-at-full-health message; below full
  health it returns \<^verbatim>\<open>True\<close> and the target is healed, to the sum of its health and
  the value or to the maximum, whichever is less; in every case the health of the
  target is within its maximum afterwards.
\<close>

theorem cast_heal_keeps_hp_within_max:
  assumes "target < length (current_objects w)"
      and "creature (current_objects w ! target) = Some c"
      and "current_hp c \<le> max_hp c"
  shows "(current_hp c = max_hp c \<longrightarrow>
            cast_heal target v w =
              Inr (False, w\<lparr>message_log := message_log w @
                     [(personal_name c @ '' is already at full health!'', COLOR_BLUE)]\<rparr>))
       \<and> (current_hp c < max_hp c \<longrightarrow>
            cast_heal target v w = Inr (True, creature_heal target v w)
            \<and> creature (current_objects (creature_heal target v w) ! target) = Some (heal c v)
            \<and> current_hp (heal c v) = min (max_hp c) (current_hp c + v)
            \<and> max_hp (heal c v) = max_hp c)
       \<and> (\<forall>b w'. cast_heal target v w = Inr (b, w') \<longrightarrow>
            (\<exists>c'. creature (current_objects w' ! target) = Some c'
                   \<and> current_hp c' \<le> max_hp c'))"
  using assms
  by (auto simp: cast_heal_def creature_heal_def heal_def game_message_def Let_def min_def)

text \<open>
  Healing the rat (3 of 4) by 5 gives 4; the hero at full health is told so.
\<close>

theorem cast_heal_keeps_hp_within_max_witness:
  "(1 :: nat) < length (current_objects demo_world)
   \<and> creature (current_objects demo_world ! 1) = Some \<lparr>personal_name = ''rat'', current_hp = 3, max_hp = 4\<rparr>
   \<and> (3 :: int) \<le> 4
   \<and> cast_heal 1 5 demo_world = Inr (True, creature_heal 1 5 demo_world)
   \<and> creature (current_objects (creature_heal 1 5 demo_world) ! 1)
       = Some (heal \<lparr>personal_name = ''rat'', current_hp = 3, max_hp = 4\<rparr> 5)
   \<and> current_hp (heal \<lparr>personal_name = ''rat'', current_hp = 3, max_hp = 4\<rparr> 5) = 4
   \<and> creature (current_objects demo_world ! 0) = Some \<lparr>personal_name = ''hero'', current_hp = 10, max_hp = 10\<rparr>
   \<and> cast_heal 0 5 demo_world =
       Inr (False, demo_world\<lparr>message_log := message_log demo_world @
              [(''hero is already at full health!'', COLOR_BLUE)]\<rparr>)"
  (is "?len \<and> ?rat \<and> ?inv \<and> ?healed \<and> ?stored \<and> ?hp \<and> ?hero \<and> ?full")
proof -
  have len: ?len "(0 :: nat) < length (current_objects demo_world)" by (simp_all add: demo_defs)
  have rat: ?rat by (simp add: demo_defs)
  have hero: ?hero by (simp add: demo_defs)
  have inv: ?inv by simp
  have a: "?healed \<and> ?stored \<and> ?hp"
    using cast_heal_keeps_hp_within_max[OF len(1) rat, of 5] by simp
  have b: ?full
    using cast_heal_keeps_hp_within_max[OF len(2) hero, of 5] by simp
  from len(1) rat inv a hero b show ?thesis by blast
qed

section \<open>Damage\<close>

text \<open>
  Claim C6. For every creature and every damage amount, \<open>take_damage\<close> lowers the current
  health by that amount and stops at zero: the new current health is
  \<open>max 0 (current_hp - damage)\<close>; the name and the maximal health stay as they are.
\<close>

theorem take_damage_clamped:
  "current_hp (take_damage c damage) = max 0 (current_hp c - damage)
   \<and> max_hp (take_damage c damage) = max_hp c
   \<and> personal_name (take_damage c damage) = personal_name c"
  by (simp add: take_damage_def Let_def max_def)

section \<open>Moving the player\<close>

text \<open>
  Claim C8. For every direction other than "up", "down", "left" and "right",
  \<^verbatim>\<open>move_one_tile\<close> raises a fault: it returns no value and moves nothing. When the
  player has a creature component the fault is the unbound local variable
  (\<^verbatim>\<open>dx, dy\<close> are read without having been assigned).
\<close>

theorem move_one_tile_unknown_direction:
  assumes "direction \<notin> {''up'', ''down'', ''left'', ''right''}"
  shows "isl (move_one_tile creature_move direction g)
       \<and> (\<forall>player c. PLAYER g = Some player \<longrightarrow> creature player = Some c \<longrightarrow>
            move_one_tile creature_move direction g = Inl UnboundLocalError)"
  using assms by (auto simp: move_one_tile_def split: option.splits)

text \<open>
  The direction "north".
\<close>

theorem move_one_tile_unknown_direction_witness:
  "''north'' \<notin> {''up'', ''down'', ''left'', ''right''}
   \<and> move_one_tile (\<lambda>dx dy g. Inr g) ''north'' \<lparr>PLAYER = Some demo_hero, FOV_CALCULATE = False\<rparr>
       = Inl UnboundLocalError"
proof -
  have dir: "''north'' \<notin> {''up'', ''down'', ''left'', ''right''}" by simp
  have "move_one_tile (\<lambda>dx dy g. Inr g) ''north'' \<lparr>PLAYER = Some demo_hero, FOV_CALCULATE = False\<rparr>
          = Inl UnboundLocalError"
    using move_one_tile_unknown_direction[OF dir, of "\<lambda>dx dy g. Inr g" "\<lparr>PLAYER = Some demo_hero, FOV_CALCULATE = False\<rparr>"]
    by (simp add: demo_hero_def)
  with dir show ?thesis by blast
qed

end
